theory Spec2Isabelle
  imports Main
begin

section \<open>Values exchanged with the JavaScript runtime\<close>

text \<open>
  JSON values, as they occur as the claims of a token payload. Object members are kept
  as an association list; \<open>map_of\<close> reads a member.
\<close>

datatype json =
    JNull
  | JBool bool
  | JNum int
  | JStr string
  | JArr "json list"
  | JObj "(string \<times> json) list"

text \<open>
  A thrown JavaScript error: its class and its \<open>message\<close> property. The three token
  errors are the classes of the jsonwebtoken package; \<open>Error\<close> stands for every other
  error object.
\<close>

datatype js_error =
    Error string
  | JsonWebTokenError string
  | TokenExpiredError string
  | NotBeforeError string

fun message :: "js_error \<Rightarrow> string" where
  "message (Error m) = m"
| "message (JsonWebTokenError m) = m"
| "message (TokenExpiredError m) = m"
| "message (NotBeforeError m) = m"

text \<open>
  \<open>process.env\<close>, restricted to the three variables the sources read. A variable that
  is not defined reads as \<open>undefined\<close> (\<open>None\<close>); one that is defined reads as its text,
  which may be empty.
\<close>

record process_env =
  env_JWT_SECRET :: "string option"
  env_GOOGLE_OAUTH_REDIRECT_URL :: "string option"
  env_GOOGLE_CLIENT_ID :: "string option"

section \<open>The jsonwebtoken package (external), symbolically\<close>

text \<open>
  The package is not part of the repository. Its tokens are modelled symbolically, in the
  style of the message algebra of protocol verification: the text of a token is a term
  that records what was signed and with which key, and a keyed signature verifies under
  that key only.

  \<^item> \<open>Malformed\<close> is any non-empty text that is not the compact serialisation of a token.
  \<^item> \<open>Compact sg p\<close> is the compact serialisation of payload \<open>p\<close> with signature part \<open>sg\<close>:
    absent (\<open>Unsigned\<close>), bytes that are no valid signature under any key (\<open>Forged\<close>), or
    the HMAC of header and payload under key \<open>k\<close> (\<open>HS256 k\<close>).

  A verified payload is, as in the package's type declarations, a string or an object.
\<close>

datatype payload = PString string | PObject "(string \<times> json) list"

datatype signature = Unsigned | Forged | HS256 string

datatype jwt = Malformed | Compact signature payload

text \<open>
  The run-time value of an argument that the TypeScript sources annotate as \<open>string\<close> but
  that arrives from a request body: any JavaScript value. A non-empty string is seen
  through the token parser (\<open>VToken\<close>).
\<close>

datatype js_arg =
    VUndefined
  | VNull
  | VBool bool
  | VNum int
  | VEmptyString
  | VToken jwt
  | VObject

text \<open>JavaScript truthiness, as tested by \<open>!x\<close> and \<open>x || y\<close>.\<close>

fun truthy :: "js_arg \<Rightarrow> bool" where
  "truthy VUndefined = False"
| "truthy VNull = False"
| "truthy (VBool b) = b"
| "truthy (VNum n) = (n \<noteq> 0)"
| "truthy VEmptyString = False"
| "truthy (VToken t) = True"
| "truthy VObject = True"

text \<open>
  The \<open>ms\<close> time-span notation accepted by \<open>expiresIn\<close>: a decimal number followed by a
  unit letter, giving milliseconds. Anything else is not a time span.
\<close>

definition is_digit :: "char \<Rightarrow> bool" where
  "is_digit c = (c \<in> set ''0123456789'')"

definition digit_val :: "char \<Rightarrow> nat" where
  "digit_val c = of_char c - of_char (CHR ''0'')"

definition decimal :: "string \<Rightarrow> nat" where
  "decimal ds = foldl (\<lambda>n c. 10 * n + digit_val c) 0 ds"

definition ms_unit :: "string \<Rightarrow> nat option" where
  "ms_unit u =
     (if u = ''s'' then Some 1000
      else if u = ''m'' then Some 60000
      else if u = ''h'' then Some 3600000
      else if u = ''d'' then Some 86400000
      else if u = ''w'' then Some 604800000
      else None)"

definition ms :: "string \<Rightarrow> nat option" where
  "ms str =
     (let ds = takeWhile is_digit str; u = dropWhile is_digit str
      in if ds = [] then None else map_option (\<lambda>k. decimal ds * k) (ms_unit u))"

text \<open>
  \<open>sign(payload, secretOrPrivateKey, {expiresIn})\<close> for an object payload, at
  \<open>Date.now() = now\<close> milliseconds: it refuses an empty secret and an unreadable time
  span, stamps \<open>iat\<close> with the clock in whole seconds and \<open>exp\<close> with \<open>iat\<close> plus the span
  in seconds, and signs with HMAC under the secret.
\<close>

definition sign :: "(string \<times> json) list \<Rightarrow> string \<Rightarrow> string \<Rightarrow> nat \<Rightarrow> js_error + jwt" where
  "sign pl secretOrPrivateKey expiresIn now =
     (if secretOrPrivateKey = [] then Inl (Error ''secretOrPrivateKey must have a value'')
      else case ms expiresIn of
        None \<Rightarrow> Inl (Error ''\"expiresIn\" should be a number of seconds or string representing a timespan'')
      | Some span \<Rightarrow>
          (let timestamp = now div 1000
           in Inr (Compact (HS256 secretOrPrivateKey)
                 (PObject (pl @ [(''iat'', JNum (int timestamp)),
                                 (''exp'', JNum (int (timestamp + span div 1000)))])))))"

text \<open>
  The checks \<open>verify\<close> makes on the claims of a payload whose signature is good: \<open>nbf\<close>
  first, then \<open>exp\<close>; a token is expired as soon as the clock, in whole seconds, has
  reached \<open>exp\<close>.
\<close>

definition check_claims :: "payload \<Rightarrow> nat \<Rightarrow> js_error + payload" where
  "check_claims p clockTimestamp =
     (case p of
        PString s \<Rightarrow> Inr p
      | PObject kv \<Rightarrow>
          (case map_of kv ''nbf'' of
             Some (JNum n) \<Rightarrow>
               if n > int clockTimestamp then Inl (NotBeforeError ''jwt not active'')
               else (case map_of kv ''exp'' of
                       Some (JNum e) \<Rightarrow>
                         if int clockTimestamp \<ge> e then Inl (TokenExpiredError ''jwt expired'')
                         else Inr p
                     | Some _ \<Rightarrow> Inl (JsonWebTokenError ''invalid exp value'')
                     | None \<Rightarrow> Inr p)
           | Some _ \<Rightarrow> Inl (JsonWebTokenError ''invalid nbf value'')
           | None \<Rightarrow>
               (case map_of kv ''exp'' of
                  Some (JNum e) \<Rightarrow>
                    if int clockTimestamp \<ge> e then Inl (TokenExpiredError ''jwt expired'')
                    else Inr p
                | Some _ \<Rightarrow> Inl (JsonWebTokenError ''invalid exp value'')
                | None \<Rightarrow> Inr p)))"

text \<open>
  \<open>verify(jwtString, secretOrPublicKey)\<close> at \<open>Date.now() = now\<close> milliseconds: every
  failure is a thrown error (\<open>Inl\<close>), success returns the payload.
\<close>

definition verify :: "js_arg \<Rightarrow> string \<Rightarrow> nat \<Rightarrow> js_error + payload" where
  "verify jwtString secretOrPublicKey now =
     (if \<not> truthy jwtString then Inl (JsonWebTokenError ''jwt must be provided'')
      else case jwtString of
        VToken Malformed \<Rightarrow> Inl (JsonWebTokenError ''jwt malformed'')
      | VToken (Compact Unsigned p) \<Rightarrow>
          if secretOrPublicKey \<noteq> [] then Inl (JsonWebTokenError ''jwt signature is required'')
          else check_claims p (now div 1000)
      | VToken (Compact Forged p) \<Rightarrow>
          if secretOrPublicKey = [] then Inl (JsonWebTokenError ''secret or public key must be provided'')
          else Inl (JsonWebTokenError ''invalid signature'')
      | VToken (Compact (HS256 k) p) \<Rightarrow>
          if secretOrPublicKey = [] then Inl (JsonWebTokenError ''secret or public key must be provided'')
          else if k \<noteq> secretOrPublicKey then Inl (JsonWebTokenError ''invalid signature'')
          else check_claims p (now div 1000)
      | _ \<Rightarrow> Inl (JsonWebTokenError ''jwt must be a string''))"

section \<open>utils/jwt.handle: minting and verifying tokens\<close>

text \<open>\<open>const JWT_SECRET = process.env.JWT_SECRET || "token.010101010101"\<close>\<close>

definition JWT_SECRET :: "'a process_env_scheme \<Rightarrow> string" where
  "JWT_SECRET env =
     (case env_JWT_SECRET env of
        None \<Rightarrow> ''token.010101010101''
      | Some s \<Rightarrow> if s = [] then ''token.010101010101'' else s)"

definition generateToken :: "'a process_env_scheme \<Rightarrow> nat \<Rightarrow> string \<Rightarrow> string \<Rightarrow> js_error + jwt" where
  "generateToken env now id' email =
     sign [(''id'', JStr id'), (''email'', JStr email)] (JWT_SECRET env) ''1h'' now"

definition verifyToken :: "'a process_env_scheme \<Rightarrow> nat \<Rightarrow> js_arg \<Rightarrow> js_error + payload" where
  "verifyToken env now jwt = verify jwt (JWT_SECRET env) now"

definition generateRefreshToken :: "'a process_env_scheme \<Rightarrow> nat \<Rightarrow> string \<Rightarrow> js_error + jwt" where
  "generateRefreshToken env now id' =
     sign [(''id'', JStr id')] (JWT_SECRET env) ''7d'' now"

text \<open>
  \<open>try { return verify(...) } catch (error) { return null }\<close>: the result type keeps the
  error branch of the function itself, so that "nothing is thrown" is a statement about it;
  \<open>None\<close> is \<open>null\<close>.
\<close>

definition verifyRefreshToken :: "'a process_env_scheme \<Rightarrow> nat \<Rightarrow> js_arg \<Rightarrow> js_error + payload option" where
  "verifyRefreshToken env now refreshToken =
     (case verify refreshToken (JWT_SECRET env) now of
        Inr isOk \<Rightarrow> Inr (Some isOk)
      | Inl error \<Rightarrow> Inr None)"

section \<open>The Express response object\<close>

text \<open>
  A handler receives \<open>res\<close> and mutates it; the model passes the response along and returns
  the updated one. Cookies are recorded in the order they are set. \<open>'t\<close> is the type of
  token texts, \<open>'u\<close> that of the user objects the service layer hands over.
\<close>

record 't cookie =
  cookie_name :: string
  cookie_value :: 't
  httpOnly :: bool
  secure :: bool
  sameSite :: string
  maxAge :: nat

datatype ('t, 'u) body =
    Message string          \<comment> \<open>\<open>{ message }\<close>\<close>
  | Session 'u 't 't        \<comment> \<open>\<open>{ user, token, refreshToken }\<close>\<close>
  | NewToken 't             \<comment> \<open>\<open>{ token }\<close>\<close>
  | Plain 'u                \<comment> \<open>the value itself\<close>

datatype ('t, 'u) reply = Pending | Json "('t, 'u) body" | Redirect string

record ('t, 'u) response =
  statusCode :: nat
  cookies :: "'t cookie list"
  sent :: "('t, 'u) reply"

definition fresh :: "('t, 'u) response" where
  "fresh = \<lparr>statusCode = 200, cookies = [], sent = Pending\<rparr>"

definition res_status :: "nat \<Rightarrow> ('t, 'u) response \<Rightarrow> ('t, 'u) response" where
  "res_status code res = res\<lparr>statusCode := code\<rparr>"

definition res_json :: "('t, 'u) body \<Rightarrow> ('t, 'u) response \<Rightarrow> ('t, 'u) response" where
  "res_json b res = res\<lparr>sent := Json b\<rparr>"

definition res_cookie :: "'t cookie \<Rightarrow> ('t, 'u) response \<Rightarrow> ('t, 'u) response" where
  "res_cookie c res = res\<lparr>cookies := cookies res @ [c]\<rparr>"

text \<open>\<open>res.redirect(url)\<close> answers with status 302 and the address.\<close>

definition res_redirect :: "string \<Rightarrow> ('t, 'u) response \<Rightarrow> ('t, 'u) response" where
  "res_redirect url res = res\<lparr>statusCode := 302, sent := Redirect url\<rparr>"

section \<open>Platform strings\<close>

text \<open>
  Strings are sequences of bytes, UTF-8 for the letters beyond ASCII. \<open>falsy\<close> is \<open>!x\<close> and
  \<open>toString\<close> is the conversion to text, both for a value that is a string or \<open>undefined\<close>.
\<close>

definition falsy :: "string option \<Rightarrow> bool" where
  "falsy v = (case v of None \<Rightarrow> True | Some s \<Rightarrow> s = [])"

definition toString :: "string option \<Rightarrow> string" where
  "toString v = (case v of None \<Rightarrow> ''undefined'' | Some s \<Rightarrow> s)"

text \<open>
  \<open>URLSearchParams.toString()\<close>: the application/x-www-form-urlencoded serialiser. Letters,
  digits and \<open>*-._\<close> stay, a space becomes \<open>+\<close>, every other byte becomes \<open>%XX\<close>.
\<close>

definition unreserved :: "char \<Rightarrow> bool" where
  "unreserved c =
     (c \<in> set ''abcdefghijklmnopqrstuvwxyzABCDEFGHIJKLMNOPQRSTUVWXYZ0123456789*-._'')"

definition hex :: "nat \<Rightarrow> char" where
  "hex n = ''0123456789ABCDEF'' ! (n mod 16)"

definition urlencode_byte :: "char \<Rightarrow> string" where
  "urlencode_byte c =
     (if unreserved c then [c]
      else if c = CHR '' '' then ''+''
      else [CHR ''%'', hex (of_char c div 16), hex (of_char c mod 16)])"

definition urlencode :: "string \<Rightarrow> string" where
  "urlencode s = concat (map urlencode_byte s)"

fun join_amp :: "string list \<Rightarrow> string" where
  "join_amp [] = []"
| "join_amp [x] = x"
| "join_amp (x # y # ys) = x @ ''&'' @ join_amp (y # ys)"

definition URLSearchParams_toString :: "(string \<times> string) list \<Rightarrow> string" where
  "URLSearchParams_toString ps =
     join_amp (map (\<lambda>(k, v). urlencode k @ ''='' @ urlencode v) ps)"

section \<open>auth/auth_controller\<close>

text \<open>
  Modelled from the spec: the result of \<open>loginUser\<close> and of \<open>googleAuth\<close>
  (\<open>auth_service\<close> is not among the sources). The spec's AuthResult is one of
  Authenticated(user, accessToken, refreshToken), WrongPassword and UserNotFound; the
  controller reads the last two as the strings \<open>'INCORRECT_PASSWORD'\<close> and
  \<open>'NOT_FOUND_USER'\<close> and the first as an object with \<open>user\<close>, \<open>token\<close> and
  \<open>refreshToken\<close>. A service call that throws is \<open>Inl\<close>.
\<close>

record ('t, 'u) auth_data =
  auth_user :: 'u
  auth_token :: 't
  auth_refreshToken :: 't

datatype ('t, 'u) login_result =
    INCORRECT_PASSWORD
  | NOT_FOUND_USER
  | Authenticated "('t, 'u) auth_data"

text \<open>The two session cookies, as both \<open>loginCtrl\<close> and \<open>googleAuthCallback\<close> set them.\<close>

definition token_cookie :: "'t \<Rightarrow> 't cookie" where
  "token_cookie v =
     \<lparr>cookie_name = ''token'', cookie_value = v, httpOnly = True, secure = False,
      sameSite = ''none'', maxAge = 86400000\<rparr>"

definition refreshToken_cookie :: "'t \<Rightarrow> 't cookie" where
  "refreshToken_cookie v =
     \<lparr>cookie_name = ''refreshToken'', cookie_value = v, httpOnly = True, secure = False,
      sameSite = ''none'', maxAge = 7 * 24 * 60 * 60 * 1000\<rparr>"

definition registerCtrl ::
  "('b \<Rightarrow> js_error + 'u) \<Rightarrow> 'b \<Rightarrow> ('t, 'u) response \<Rightarrow> ('t, 'u) response" where
  "registerCtrl registerNewUser body res =
     (case registerNewUser body of
        Inr responseUser \<Rightarrow> res_json (Plain responseUser) res
      | Inl error \<Rightarrow> res_json (Message (message error)) (res_status 500 res))"

definition loginCtrl ::
  "('b \<Rightarrow> js_error + ('t, 'u) login_result) \<Rightarrow> 'b \<Rightarrow> ('t, 'u) response \<Rightarrow> ('t, 'u) response" where
  "loginCtrl loginUser body res =
     (case loginUser body of
        Inr INCORRECT_PASSWORD \<Rightarrow>
          res_json (Message (''Contrase'' @ [CHR 0xC3, CHR 0xB1] @ ''a incorrecta''))
            (res_status 403 res)
      | Inr NOT_FOUND_USER \<Rightarrow>
          res_json (Message ''Usuario no encontrado'') (res_status 404 res)
      | Inr (Authenticated responseUser) \<Rightarrow>
          res_json
            (Session (auth_user responseUser) (auth_token responseUser)
               (auth_refreshToken responseUser))
            (res_cookie (refreshToken_cookie (auth_refreshToken responseUser))
               (res_cookie (token_cookie (auth_token responseUser)) res))
      | Inl error \<Rightarrow> res_json (Message (message error)) (res_status 500 res))"

definition googleAuthCtrl ::
  "'a process_env_scheme \<Rightarrow> ('t, 'u) response \<Rightarrow> ('t, 'u) response" where
  "googleAuthCtrl env res =
     (let redirectUri = env_GOOGLE_OAUTH_REDIRECT_URL env
      in if falsy redirectUri
         then res_json (Message (''Error interno de configuraci'' @ [CHR 0xC3, CHR 0xB3] @ ''n''))
                (res_status 500 res)
         else
           (let rootUrl = ''https://accounts.google.com/o/oauth2/v2/auth'';
                options = URLSearchParams_toString
                  [(''redirect_uri'', toString (env_GOOGLE_OAUTH_REDIRECT_URL env)),
                   (''client_id'', toString (env_GOOGLE_CLIENT_ID env)),
                   (''access_type'', ''offline''),
                   (''response_type'', ''code''),
                   (''prompt'', ''consent''),
                   (''scope'', ''https://www.googleapis.com/auth/userinfo.profile https://www.googleapis.com/auth/userinfo.email openid'')];
                fullUrl = rootUrl @ ''?'' @ options
            in res_redirect fullUrl res))"

text \<open>
  The user object as far as the handlers read it: \<open>id\<close> and \<open>email\<close>; further fields
  extend the record.
\<close>

record user =
  user_id :: string
  user_email :: string

definition googleAuthCallback ::
  "(string \<Rightarrow> js_error + (string, 'a user_scheme) auth_data option) \<Rightarrow> string option
     \<Rightarrow> (string, 'a user_scheme) response \<Rightarrow> (string, 'a user_scheme) response" where
  "googleAuthCallback googleAuth code res =
     (if falsy code
      then res_json (Message (''C'' @ [CHR 0xC3, CHR 0xB3] @ ''digo de autorizaci''
                                @ [CHR 0xC3, CHR 0xB3] @ ''n faltante''))
             (res_status 400 res)
      else case googleAuth (toString code) of
        Inr None \<Rightarrow> res_redirect ''/login?error=authentication_failed'' res
      | Inr (Some authData) \<Rightarrow>
          res_redirect
            (''http://localhost:4200/?token='' @ auth_token authData
               @ ''&email='' @ user_email (auth_user authData))
            (res_cookie (refreshToken_cookie (auth_refreshToken authData))
               (res_cookie (token_cookie (auth_token authData)) res))
      | Inl error \<Rightarrow> res_redirect ''/login?error=server_error'' res)"

section \<open>routes/user_routes: POST /auth/refresh\<close>

text \<open>
  The request body as far as the handler reads it. \<open>UserModel.findById\<close> is the
  persistence collaborator, a parameter: it yields the user, \<open>null\<close>, or throws. The clock
  is read once when the token is verified (\<open>now\<close>) and once when the new one is minted
  (\<open>now'\<close>).
\<close>

record refresh_body =
  body_refreshToken :: js_arg

definition refresh_route ::
  "'e process_env_scheme \<Rightarrow> nat \<Rightarrow> nat \<Rightarrow> (json \<Rightarrow> js_error + 'a user_scheme option)
     \<Rightarrow> 'b refresh_body_scheme \<Rightarrow> (jwt, 'u) response \<Rightarrow> (jwt, 'u) response" where
  "refresh_route env now now' findById body res =
     (let refreshToken = body_refreshToken body
      in if \<not> truthy refreshToken
         then res_json (Message ''Refresh token es requerido'') (res_status 400 res)
         else case verifyRefreshToken env now refreshToken of
           Inl error \<Rightarrow> res_json (Message ''Error interno del servidor'') (res_status 500 res)
         | Inr None \<Rightarrow>
             res_json (Message (''Refresh token inv'' @ [CHR 0xC3, CHR 0xA1] @ ''lido o expirado''))
               (res_status 401 res)
         | Inr (Some (PString s)) \<Rightarrow>
             res_json (Message (''Refresh token inv'' @ [CHR 0xC3, CHR 0xA1] @ ''lido o expirado''))
               (res_status 401 res)
         | Inr (Some (PObject payload)) \<Rightarrow>
             (case map_of payload ''id'' of
                None \<Rightarrow>
                  res_json (Message (''Refresh token inv'' @ [CHR 0xC3, CHR 0xA1] @ ''lido o expirado''))
                    (res_status 401 res)
              | Some payload_id \<Rightarrow>
                  (case findById payload_id of
                     Inl error \<Rightarrow>
                       res_json (Message ''Error interno del servidor'') (res_status 500 res)
                   | Inr None \<Rightarrow>
                       res_json (Message ''Usuario no encontrado'') (res_status 401 res)
                   | Inr (Some user) \<Rightarrow>
                       (case generateToken env now' (user_id user) (user_email user) of
                          Inl error \<Rightarrow>
                            res_json (Message ''Error interno del servidor'') (res_status 500 res)
                        | Inr newToken \<Rightarrow> res_json (NewToken newToken) res))))"

section \<open>Concrete inputs\<close>

text \<open>A process environment in which none of the three variables is defined.\<close>

definition env0 :: process_env where
  "env0 = \<lparr>env_JWT_SECRET = None, env_GOOGLE_OAUTH_REDIRECT_URL = None,
           env_GOOGLE_CLIENT_ID = None\<rparr>"

text \<open>
  An environment whose redirect address is defined but empty, and one with both Google
  variables defined.
\<close>

definition env_empty_redirect :: process_env where
  "env_empty_redirect =
     \<lparr>env_JWT_SECRET = None, env_GOOGLE_OAUTH_REDIRECT_URL = Some [],
      env_GOOGLE_CLIENT_ID = Some ''client-1''\<rparr>"

definition env_google :: process_env where
  "env_google =
     \<lparr>env_JWT_SECRET = None,
      env_GOOGLE_OAUTH_REDIRECT_URL = Some ''http://localhost:9000/cb'',
      env_GOOGLE_CLIENT_ID = Some ''client-1''\<rparr>"

text \<open>A user, and three behaviours of the persistence collaborator.\<close>

definition alice :: user where
  "alice = \<lparr>user_id = ''u1'', user_email = ''a@x.com''\<rparr>"

definition find_alice :: "json \<Rightarrow> js_error + user option" where
  "find_alice i = (if i = JStr ''u1'' then Inr (Some alice) else Inr None)"

definition find_nobody :: "json \<Rightarrow> js_error + user option" where
  "find_nobody i = Inr None"

definition find_fails :: "json \<Rightarrow> js_error + user option" where
  "find_fails i = Inl (Error ''connection lost'')"

text \<open>
  The refresh token and the access token that are minted for \<open>alice\<close> at clock 0 under
  \<open>env0\<close>, and a token for her signed with another secret.
\<close>

definition refresh_claims0 :: "(string \<times> json) list" where
  "refresh_claims0 = [(''id'', JStr ''u1''), (''iat'', JNum 0), (''exp'', JNum 604800)]"

definition refresh0 :: jwt where
  "refresh0 = Compact (HS256 ''token.010101010101'') (PObject refresh_claims0)"

definition access_claims0 :: "(string \<times> json) list" where
  "access_claims0 =
     [(''id'', JStr ''u1''), (''email'', JStr ''a@x.com''), (''iat'', JNum 0), (''exp'', JNum 3600)]"

definition access0 :: jwt where
  "access0 = Compact (HS256 ''token.010101010101'') (PObject access_claims0)"

definition foreign0 :: jwt where
  "foreign0 = Compact (HS256 ''another secret'') (PObject refresh_claims0)"

text \<open>Behaviours of the service layer, for a request body that is not looked at.\<close>

definition session0 :: "(string, user) auth_data" where
  "session0 = \<lparr>auth_user = alice, auth_token = ''aaa.bbb.ccc'', auth_refreshToken = ''ddd.eee.fff''\<rparr>"

definition login_wrong_password :: "unit \<Rightarrow> js_error + (string, user) login_result" where
  "login_wrong_password b = Inr INCORRECT_PASSWORD"

definition login_not_found :: "unit \<Rightarrow> js_error + (string, user) login_result" where
  "login_not_found b = Inr NOT_FOUND_USER"

definition login_ok :: "unit \<Rightarrow> js_error + (string, user) login_result" where
  "login_ok b = Inr (Authenticated session0)"

definition login_fails :: "unit \<Rightarrow> js_error + (string, user) login_result" where
  "login_fails b = Inl (Error ''connection lost'')"

definition register_fails :: "unit \<Rightarrow> js_error + user" where
  "register_fails b = Inl (Error ''connection lost'')"

definition google_ok :: "string \<Rightarrow> js_error + (string, user) auth_data option" where
  "google_ok code = Inr (Some session0)"

section \<open>Properties\<close>

lemma ms_1h: "ms ''1h'' = Some 3600000"
  by (simp add: ms_def ms_unit_def is_digit_def decimal_def digit_val_def)

lemma ms_7d: "ms ''7d'' = Some 604800000"
  by (simp add: ms_def ms_unit_def is_digit_def decimal_def digit_val_def)

lemma JWT_SECRET_nonempty: "JWT_SECRET env \<noteq> []"
  by (simp add: JWT_SECRET_def split: option.split)

subsection \<open>What the two minting functions return\<close>

lemma generateToken_eq:
  "generateToken env now id' email =
     Inr (Compact (HS256 (JWT_SECRET env))
       (PObject [(''id'', JStr id'), (''email'', JStr email),
                 (''iat'', JNum (int (now div 1000))),
                 (''exp'', JNum (int (now div 1000 + 3600)))]))"
  by (simp add: generateToken_def sign_def JWT_SECRET_nonempty ms_1h Let_def)

lemma generateRefreshToken_eq:
  "generateRefreshToken env now id' =
     Inr (Compact (HS256 (JWT_SECRET env))
       (PObject [(''id'', JStr id'),
                 (''iat'', JNum (int (now div 1000))),
                 (''exp'', JNum (int (now div 1000 + 604800)))]))"
  by (simp add: generateRefreshToken_def sign_def JWT_SECRET_nonempty ms_7d Let_def)

lemma verify_signed:
  "k \<noteq> [] \<Longrightarrow> verify (VToken (Compact (HS256 k) p)) k now = check_claims p (now div 1000)"
  by (simp add: verify_def)

lemma check_claims_access:
  "check_claims (PObject [(''id'', i), (''email'', m), (''iat'', a), (''exp'', JNum e)]) t =
     (if e \<le> int t then Inl (TokenExpiredError ''jwt expired'')
      else Inr (PObject [(''id'', i), (''email'', m), (''iat'', a), (''exp'', JNum e)]))"
  by (simp add: check_claims_def)

lemma check_claims_refresh:
  "check_claims (PObject [(''id'', i), (''iat'', a), (''exp'', JNum e)]) t =
     (if e \<le> int t then Inl (TokenExpiredError ''jwt expired'')
      else Inr (PObject [(''id'', i), (''iat'', a), (''exp'', JNum e)]))"
  by (simp add: check_claims_def)

subsection \<open>Token round trip and expiry\<close>

text \<open>
  C1. For every id and email, an access token minted by \<open>generateToken\<close> at clock \<open>now\<close>
  and verified by \<open>verifyToken\<close> under the same environment at a clock \<open>now'\<close> whose whole
  second lies before the token's expiry is accepted, and the payload returned is an object
  whose \<open>id\<close> and \<open>email\<close> are the inputs.
\<close>

theorem generateToken_verifyToken_roundtrip:
  assumes "now' div 1000 < now div 1000 + 3600"
  shows "\<exists>tok kv. generateToken env now id' email = Inr tok
           \<and> verifyToken env now' (VToken tok) = Inr (PObject kv)
           \<and> map_of kv ''id'' = Some (JStr id')
           \<and> map_of kv ''email'' = Some (JStr email)"
  using assms
  by (simp add: generateToken_eq verifyToken_def verify_signed JWT_SECRET_nonempty
        check_claims_access)

theorem generateToken_verifyToken_roundtrip_witness:
  "(5000::nat) div 1000 < 2000 div 1000 + 3600 \<and>
   (\<exists>tok kv. generateToken env0 2000 ''u1'' ''a@x.com'' = Inr tok
           \<and> verifyToken env0 5000 (VToken tok) = Inr (PObject kv)
           \<and> map_of kv ''id'' = Some (JStr ''u1'')
           \<and> map_of kv ''email'' = Some (JStr ''a@x.com''))"
  using generateToken_verifyToken_roundtrip [of 5000 2000 env0 "''u1''" "''a@x.com''"]
  by simp

text \<open>
  C2. An access token carries \<open>exp = iat + 3600\<close> seconds (one hour) and a refresh token
  \<open>exp = iat + 604800\<close> seconds (seven days), \<open>iat\<close> being the clock at minting in whole
  seconds; verification at any clock that has reached \<open>exp\<close> fails with the expiry error,
  which \<open>verifyRefreshToken\<close> turns into \<open>null\<close>.
\<close>

theorem token_lifetimes_and_expiry:
  "(\<exists>pl. generateToken env now id' email = Inr (Compact (HS256 (JWT_SECRET env)) (PObject pl))
      \<and> map_of pl ''iat'' = Some (JNum (int (now div 1000)))
      \<and> map_of pl ''exp'' = Some (JNum (int (now div 1000) + 3600))
      \<and> (\<forall>now'. now div 1000 + 3600 \<le> now' div 1000 \<longrightarrow>
            verifyToken env now' (VToken (Compact (HS256 (JWT_SECRET env)) (PObject pl)))
              = Inl (TokenExpiredError ''jwt expired'')))
   \<and> (\<exists>pl. generateRefreshToken env now id' = Inr (Compact (HS256 (JWT_SECRET env)) (PObject pl))
      \<and> map_of pl ''iat'' = Some (JNum (int (now div 1000)))
      \<and> map_of pl ''exp'' = Some (JNum (int (now div 1000) + 604800))
      \<and> (\<forall>now'. now div 1000 + 604800 \<le> now' div 1000 \<longrightarrow>
            verifyToken env now' (VToken (Compact (HS256 (JWT_SECRET env)) (PObject pl)))
              = Inl (TokenExpiredError ''jwt expired'')
          \<and> verifyRefreshToken env now' (VToken (Compact (HS256 (JWT_SECRET env)) (PObject pl)))
              = Inr None))"
  by (simp add: generateToken_eq generateRefreshToken_eq verifyToken_def verifyRefreshToken_def
        verify_signed JWT_SECRET_nonempty check_claims_access check_claims_refresh)

theorem token_lifetimes_and_expiry_witness:
  "(0::nat) div 1000 + 3600 \<le> 3600000 div 1000 \<and>
   (0::nat) div 1000 + 604800 \<le> 604800000 div 1000 \<and>
   (\<exists>tok. generateToken env0 0 ''u1'' ''a@x.com'' = Inr tok
       \<and> verifyToken env0 3600000 (VToken tok) = Inl (TokenExpiredError ''jwt expired'')) \<and>
   (\<exists>tok. generateRefreshToken env0 0 ''u1'' = Inr tok
       \<and> verifyRefreshToken env0 604800000 (VToken tok) = Inr None)"
proof -
  from token_lifetimes_and_expiry [of env0 0 "''u1''" "''a@x.com''"]
  obtain pl pl' where
    a: "generateToken env0 0 ''u1'' ''a@x.com'' = Inr (Compact (HS256 (JWT_SECRET env0)) (PObject pl))"
    and a': "\<forall>now'. 0 div 1000 + 3600 \<le> now' div 1000 \<longrightarrow>
            verifyToken env0 now' (VToken (Compact (HS256 (JWT_SECRET env0)) (PObject pl)))
              = Inl (TokenExpiredError ''jwt expired'')"
    and r: "generateRefreshToken env0 0 ''u1'' = Inr (Compact (HS256 (JWT_SECRET env0)) (PObject pl'))"
    and r': "\<forall>now'. 0 div 1000 + 604800 \<le> now' div 1000 \<longrightarrow>
            verifyToken env0 now' (VToken (Compact (HS256 (JWT_SECRET env0)) (PObject pl')))
              = Inl (TokenExpiredError ''jwt expired'')
          \<and> verifyRefreshToken env0 now' (VToken (Compact (HS256 (JWT_SECRET env0)) (PObject pl')))
              = Inr None"
    by blast
  from a' have "verifyToken env0 3600000 (VToken (Compact (HS256 (JWT_SECRET env0)) (PObject pl)))
              = Inl (TokenExpiredError ''jwt expired'')"
    by simp
  moreover from r' have "verifyRefreshToken env0 604800000 (VToken (Compact (HS256 (JWT_SECRET env0)) (PObject pl')))
              = Inr None"
    by simp
  ultimately show ?thesis using a r by simp
qed

subsection \<open>How \<open>verify\<close> fails, and what the refresh handler does with each outcome\<close>

lemma verify_Inr_truthy: "verify t k now = Inr p \<Longrightarrow> truthy t"
  by (auto simp: verify_def split: if_splits)

lemma refresh_route_missing:
  "\<not> truthy (body_refreshToken body) \<Longrightarrow>
   refresh_route env now now' findById body res =
     res_json (Message ''Refresh token es requerido'') (res_status 400 res)"
  by (simp add: refresh_route_def)

lemma refresh_route_rejected:
  "truthy (body_refreshToken body) \<Longrightarrow>
   verify (body_refreshToken body) (JWT_SECRET env) now = Inl e \<Longrightarrow>
   refresh_route env now now' findById body res =
     res_json (Message (''Refresh token inv'' @ [CHR 0xC3, CHR 0xA1] @ ''lido o expirado''))
       (res_status 401 res)"
  by (simp add: refresh_route_def verifyRefreshToken_def)

lemma refresh_route_verified:
  "verify (body_refreshToken body) (JWT_SECRET env) now = Inr (PObject pl) \<Longrightarrow>
   map_of pl ''id'' = Some i \<Longrightarrow>
   refresh_route env now now' findById body res =
     (case findById i of
        Inl error \<Rightarrow> res_json (Message ''Error interno del servidor'') (res_status 500 res)
      | Inr None \<Rightarrow> res_json (Message ''Usuario no encontrado'') (res_status 401 res)
      | Inr (Some u) \<Rightarrow>
          (case generateToken env now' (user_id u) (user_email u) of
             Inl error \<Rightarrow> res_json (Message ''Error interno del servidor'') (res_status 500 res)
           | Inr newToken \<Rightarrow> res_json (NewToken newToken) res))"
  by (frule verify_Inr_truthy) (simp add: refresh_route_def verifyRefreshToken_def)

lemma check_claims_expired:
  "map_of pl ''exp'' = Some (JNum e) \<Longrightarrow> e \<le> int t \<Longrightarrow> \<exists>err. check_claims (PObject pl) t = Inl err"
  by (simp add: check_claims_def split: option.split json.split)

lemma verify_expired:
  "map_of pl ''exp'' = Some (JNum e) \<Longrightarrow> e \<le> int (now div 1000) \<Longrightarrow> k \<noteq> [] \<Longrightarrow>
   \<exists>err. verify (VToken (Compact sg (PObject pl))) k now = Inl err"
  using check_claims_expired [of pl e "now div 1000"]
  by (cases sg) (auto simp: verify_def)

lemma verify_other_secret:
  "k \<noteq> s \<Longrightarrow> s \<noteq> [] \<Longrightarrow> \<exists>err. verify (VToken (Compact (HS256 k) p)) s now = Inl err"
  by (simp add: verify_def)

lemma verify_malformed: "\<exists>err. verify (VToken Malformed) s now = Inl err"
  by (simp add: verify_def)

subsection \<open>POST /auth/refresh\<close>

text \<open>
  C3. A request to POST /auth/refresh whose body carries no \<open>refreshToken\<close> (the value is
  absent or otherwise falsy) is answered with status 400; a token that is malformed, or
  expired, or signed with another secret, and in general any value that \<open>verify\<close>
  rejects, with 401; a token that verifies, with an \<open>id\<close>
  for which the store has no user, with 401; and a token that verifies, with an \<open>id\<close> for
  which the store has a user, with status 200, no cookie, and a body that holds exactly
  the access token newly minted for that user's id and email.
\<close>

theorem refresh_route_statuses:
  "(\<not> truthy t \<longrightarrow>
      statusCode (refresh_route env now now' findById \<lparr>body_refreshToken = t\<rparr> fresh) = 400)
   \<and> (t = VToken Malformed \<longrightarrow>
      statusCode (refresh_route env now now' findById \<lparr>body_refreshToken = t\<rparr> fresh) = 401)
   \<and> (\<forall>sg pl e. t = VToken (Compact sg (PObject pl)) \<and> map_of pl ''exp'' = Some (JNum e)
          \<and> e \<le> int (now div 1000) \<longrightarrow>
      statusCode (refresh_route env now now' findById \<lparr>body_refreshToken = t\<rparr> fresh) = 401)
   \<and> (\<forall>k p. t = VToken (Compact (HS256 k) p) \<and> k \<noteq> JWT_SECRET env \<longrightarrow>
      statusCode (refresh_route env now now' findById \<lparr>body_refreshToken = t\<rparr> fresh) = 401)
   \<and> (\<forall>err. truthy t \<and> verify t (JWT_SECRET env) now = Inl err \<longrightarrow>
      statusCode (refresh_route env now now' findById \<lparr>body_refreshToken = t\<rparr> fresh) = 401)
   \<and> (\<forall>pl i. verify t (JWT_SECRET env) now = Inr (PObject pl) \<and> map_of pl ''id'' = Some i
          \<and> findById i = Inr None \<longrightarrow>
      statusCode (refresh_route env now now' findById \<lparr>body_refreshToken = t\<rparr> fresh) = 401)
   \<and> (\<forall>pl i u. verify t (JWT_SECRET env) now = Inr (PObject pl) \<and> map_of pl ''id'' = Some i
          \<and> findById i = Inr (Some u) \<longrightarrow>
      (\<exists>newToken. generateToken env now' (user_id u) (user_email u) = Inr newToken
         \<and> refresh_route env now now' findById \<lparr>body_refreshToken = t\<rparr> fresh
             = \<lparr>statusCode = 200, cookies = [], sent = Json (NewToken newToken)\<rparr>))"
proof (intro conjI allI impI)
  assume "\<not> truthy t"
  then show "statusCode (refresh_route env now now' findById \<lparr>body_refreshToken = t\<rparr> fresh) = 400"
    by (simp add: refresh_route_missing res_json_def res_status_def)
next
  assume "t = VToken Malformed"
  then show "statusCode (refresh_route env now now' findById \<lparr>body_refreshToken = t\<rparr> fresh) = 401"
    using verify_malformed [of "JWT_SECRET env" now]
    by (auto simp: refresh_route_rejected res_json_def res_status_def)
next
  fix sg pl e
  assume "t = VToken (Compact sg (PObject pl)) \<and> map_of pl ''exp'' = Some (JNum e)
          \<and> e \<le> int (now div 1000)"
  then show "statusCode (refresh_route env now now' findById \<lparr>body_refreshToken = t\<rparr> fresh) = 401"
    using verify_expired [of pl e now "JWT_SECRET env" sg]
    by (auto simp: refresh_route_rejected res_json_def res_status_def JWT_SECRET_nonempty)
next
  fix k p
  assume "t = VToken (Compact (HS256 k) p) \<and> k \<noteq> JWT_SECRET env"
  then show "statusCode (refresh_route env now now' findById \<lparr>body_refreshToken = t\<rparr> fresh) = 401"
    using verify_other_secret [of k "JWT_SECRET env" p now]
    by (auto simp: refresh_route_rejected res_json_def res_status_def JWT_SECRET_nonempty)
next
  fix err
  assume "truthy t \<and> verify t (JWT_SECRET env) now = Inl err"
  then show "statusCode (refresh_route env now now' findById \<lparr>body_refreshToken = t\<rparr> fresh) = 401"
    by (simp add: refresh_route_rejected [where e = err] res_json_def res_status_def)
next
  fix pl i
  assume h: "verify t (JWT_SECRET env) now = Inr (PObject pl) \<and> map_of pl ''id'' = Some i
          \<and> findById i = Inr None"
  then have v: "verify (body_refreshToken \<lparr>body_refreshToken = t\<rparr>) (JWT_SECRET env) now = Inr (PObject pl)"
    and i: "map_of pl ''id'' = Some i" by simp_all
  show "statusCode (refresh_route env now now' findById \<lparr>body_refreshToken = t\<rparr> fresh) = 401"
    using h by (simp add: refresh_route_verified [OF v i] res_json_def res_status_def)
next
  fix pl i u
  assume h: "verify t (JWT_SECRET env) now = Inr (PObject pl) \<and> map_of pl ''id'' = Some i
          \<and> findById i = Inr (Some u)"
  then have v: "verify (body_refreshToken \<lparr>body_refreshToken = t\<rparr>) (JWT_SECRET env) now = Inr (PObject pl)"
    and i: "map_of pl ''id'' = Some i" by simp_all
  show "\<exists>newToken. generateToken env now' (user_id u) (user_email u) = Inr newToken
         \<and> refresh_route env now now' findById \<lparr>body_refreshToken = t\<rparr> fresh
             = \<lparr>statusCode = 200, cookies = [], sent = Json (NewToken newToken)\<rparr>"
    using h by (simp add: refresh_route_verified [OF v i] generateToken_eq res_json_def fresh_def)
qed

subsection \<open>Login outcomes\<close>

text \<open>
  C4. When the credential check answers wrong-password, the login response has status 403
  and the body \<open>{message: "Contrase<n-tilde>a incorrecta"}\<close> (the letter n-tilde in UTF-8); when it answers
  user-not-found, the status is 404. The status is 403 for the first outcome only and 404
  for the second only, and one request has one outcome.
\<close>

theorem loginCtrl_rejections:
  "(loginUser body = Inr INCORRECT_PASSWORD \<longrightarrow>
      loginCtrl loginUser body fresh =
        \<lparr>statusCode = 403, cookies = [],
         sent = Json (Message (''Contrase'' @ [CHR 0xC3, CHR 0xB1] @ ''a incorrecta''))\<rparr>)
   \<and> (loginUser body = Inr NOT_FOUND_USER \<longrightarrow>
      statusCode (loginCtrl loginUser body fresh) = 404)
   \<and> (statusCode (loginCtrl loginUser body fresh) = 403 \<longleftrightarrow> loginUser body = Inr INCORRECT_PASSWORD)
   \<and> (statusCode (loginCtrl loginUser body fresh) = 404 \<longleftrightarrow> loginUser body = Inr NOT_FOUND_USER)
   \<and> \<not> (loginUser body = Inr INCORRECT_PASSWORD \<and> loginUser body = Inr NOT_FOUND_USER)"
  by (auto simp: loginCtrl_def res_json_def res_status_def res_cookie_def fresh_def
        split: sum.splits login_result.splits)

theorem loginCtrl_rejections_witness:
  "login_wrong_password () = Inr INCORRECT_PASSWORD
   \<and> loginCtrl login_wrong_password () fresh =
        \<lparr>statusCode = 403, cookies = [],
         sent = Json (Message (''Contrase'' @ [CHR 0xC3, CHR 0xB1] @ ''a incorrecta''))\<rparr>
   \<and> login_not_found () = Inr NOT_FOUND_USER
   \<and> statusCode (loginCtrl login_not_found () fresh) = 404"
proof -
  have a: "login_wrong_password () = Inr INCORRECT_PASSWORD"
    by (simp add: login_wrong_password_def)
  have b: "login_not_found () = Inr NOT_FOUND_USER"
    by (simp add: login_not_found_def)
  from a loginCtrl_rejections [of login_wrong_password "()"]
  have "loginCtrl login_wrong_password () fresh =
        \<lparr>statusCode = 403, cookies = [],
         sent = Json (Message (''Contrase'' @ [CHR 0xC3, CHR 0xB1] @ ''a incorrecta''))\<rparr>"
    by blast
  moreover from b loginCtrl_rejections [of login_not_found "()"]
  have "statusCode (loginCtrl login_not_found () fresh) = 404"
    by blast
  ultimately show ?thesis using a b by simp
qed

subsection \<open>GET /auth/google\<close>

lemma urlencode_scope:
  "urlencode ''https://www.googleapis.com/auth/userinfo.profile https://www.googleapis.com/auth/userinfo.email openid''
   = ''https%3A%2F%2Fwww.googleapis.com%2Fauth%2Fuserinfo.profile+https%3A%2F%2Fwww.googleapis.com%2Fauth%2Fuserinfo.email+openid''"
  by (simp add: urlencode_def urlencode_byte_def unreserved_def hex_def)

text \<open>
  C9 (as amended). When \<open>GOOGLE_OAUTH_REDIRECT_URL\<close> is not defined, or is defined as the
  empty string, the handler answers 500 with \<open>{message: "Error interno de configuraci<o-acute>n"}\<close>
  and does not redirect; in every other case it redirects (302) to Google's authorisation
  endpoint with the form-encoded redirect address and client id followed by the fixed
  parameters \<open>access_type=offline\<close>, \<open>response_type=code\<close>, \<open>prompt=consent\<close> and the
  profile, email and openid scope.
\<close>

theorem googleAuthCtrl_outcomes:
  "((env_GOOGLE_OAUTH_REDIRECT_URL env = None \<or> env_GOOGLE_OAUTH_REDIRECT_URL env = Some []) \<longrightarrow>
      googleAuthCtrl env fresh =
        \<lparr>statusCode = 500, cookies = [],
         sent = Json (Message (''Error interno de configuraci'' @ [CHR 0xC3, CHR 0xB3] @ ''n''))\<rparr>)
   \<and> (\<forall>uri. env_GOOGLE_OAUTH_REDIRECT_URL env = Some uri \<and> uri \<noteq> [] \<longrightarrow>
      googleAuthCtrl env fresh =
        \<lparr>statusCode = 302, cookies = [],
         sent = Redirect (''https://accounts.google.com/o/oauth2/v2/auth?redirect_uri=''
           @ urlencode uri @ ''&client_id='' @ urlencode (toString (env_GOOGLE_CLIENT_ID env))
           @ ''&access_type=offline&response_type=code&prompt=consent&scope=https%3A%2F%2Fwww.googleapis.com%2Fauth%2Fuserinfo.profile+https%3A%2F%2Fwww.googleapis.com%2Fauth%2Fuserinfo.email+openid'')\<rparr>)"
proof (intro conjI allI impI)
  assume "env_GOOGLE_OAUTH_REDIRECT_URL env = None \<or> env_GOOGLE_OAUTH_REDIRECT_URL env = Some []"
  then have "falsy (env_GOOGLE_OAUTH_REDIRECT_URL env)"
    by (auto simp: falsy_def)
  then show "googleAuthCtrl env fresh =
        \<lparr>statusCode = 500, cookies = [],
         sent = Json (Message (''Error interno de configuraci'' @ [CHR 0xC3, CHR 0xB3] @ ''n''))\<rparr>"
    by (simp add: googleAuthCtrl_def res_json_def res_status_def fresh_def)
next
  fix uri
  assume h: "env_GOOGLE_OAUTH_REDIRECT_URL env = Some uri \<and> uri \<noteq> []"
  then have nf: "\<not> falsy (env_GOOGLE_OAUTH_REDIRECT_URL env)"
    by (simp add: falsy_def)
  have enc: "urlencode ''redirect_uri'' = ''redirect_uri''"
    "urlencode ''client_id'' = ''client_id''"
    "urlencode ''access_type'' = ''access_type''"
    "urlencode ''offline'' = ''offline''"
    "urlencode ''response_type'' = ''response_type''"
    "urlencode ''code'' = ''code''"
    "urlencode ''prompt'' = ''prompt''"
    "urlencode ''consent'' = ''consent''"
    "urlencode ''scope'' = ''scope''"
    by (simp_all add: urlencode_def urlencode_byte_def unreserved_def)
  show "googleAuthCtrl env fresh =
        \<lparr>statusCode = 302, cookies = [],
         sent = Redirect (''https://accounts.google.com/o/oauth2/v2/auth?redirect_uri=''
           @ urlencode uri @ ''&client_id='' @ urlencode (toString (env_GOOGLE_CLIENT_ID env))
           @ ''&access_type=offline&response_type=code&prompt=consent&scope=https%3A%2F%2Fwww.googleapis.com%2Fauth%2Fuserinfo.profile+https%3A%2F%2Fwww.googleapis.com%2Fauth%2Fuserinfo.email+openid'')\<rparr>"
    using h nf
    by (simp add: googleAuthCtrl_def Let_def res_redirect_def fresh_def
          URLSearchParams_toString_def enc urlencode_scope toString_def)
qed

subsection \<open>The concrete tokens\<close>

lemma refresh0_minted: "generateRefreshToken env0 0 ''u1'' = Inr refresh0"
  by (simp add: generateRefreshToken_eq refresh0_def refresh_claims0_def JWT_SECRET_def env0_def)

lemma access0_minted: "generateToken env0 0 ''u1'' ''a@x.com'' = Inr access0"
  by (simp add: generateToken_eq access0_def access_claims0_def JWT_SECRET_def env0_def)

lemma JWT_SECRET_env0: "JWT_SECRET env0 = ''token.010101010101''"
  by (simp add: JWT_SECRET_def env0_def)

lemma verify_refresh0: "verify (VToken refresh0) (JWT_SECRET env0) 0 = Inr (PObject refresh_claims0)"
  by (simp add: refresh0_def JWT_SECRET_env0 verify_def check_claims_def refresh_claims0_def)

theorem refresh_route_statuses_witness:
  "\<not> truthy VUndefined
   \<and> statusCode (refresh_route env0 0 0 find_alice \<lparr>body_refreshToken = VUndefined\<rparr>
        (fresh :: (jwt, user) response)) = 400
   \<and> statusCode (refresh_route env0 0 0 find_alice \<lparr>body_refreshToken = VToken Malformed\<rparr>
        (fresh :: (jwt, user) response)) = 401
   \<and> map_of refresh_claims0 ''exp'' = Some (JNum 604800) \<and> 604800 \<le> int (604800000 div 1000)
   \<and> statusCode (refresh_route env0 604800000 604800000 find_alice
        \<lparr>body_refreshToken = VToken refresh0\<rparr> (fresh :: (jwt, user) response)) = 401
   \<and> ''another secret'' \<noteq> JWT_SECRET env0
   \<and> statusCode (refresh_route env0 0 0 find_alice \<lparr>body_refreshToken = VToken foreign0\<rparr>
        (fresh :: (jwt, user) response)) = 401
   \<and> truthy (VNum 7)
   \<and> verify (VNum 7) (JWT_SECRET env0) 0 = Inl (JsonWebTokenError ''jwt must be a string'')
   \<and> statusCode (refresh_route env0 0 0 find_alice \<lparr>body_refreshToken = VNum 7\<rparr>
        (fresh :: (jwt, user) response)) = 401
   \<and> verify (VToken refresh0) (JWT_SECRET env0) 0 = Inr (PObject refresh_claims0)
   \<and> map_of refresh_claims0 ''id'' = Some (JStr ''u1'')
   \<and> find_nobody (JStr ''u1'') = Inr None
   \<and> statusCode (refresh_route env0 0 0 find_nobody \<lparr>body_refreshToken = VToken refresh0\<rparr>
        (fresh :: (jwt, user) response)) = 401
   \<and> find_alice (JStr ''u1'') = Inr (Some alice)
   \<and> (\<exists>newToken. generateToken env0 5000 (user_id alice) (user_email alice) = Inr newToken
        \<and> refresh_route env0 0 5000 find_alice \<lparr>body_refreshToken = VToken refresh0\<rparr> fresh
            = \<lparr>statusCode = 200, cookies = [], sent = Json (NewToken newToken) :: (jwt, user) reply\<rparr>)"
proof -
  have h1: "\<not> truthy VUndefined" by simp
  have h3: "map_of refresh_claims0 ''exp'' = Some (JNum 604800) \<and> 604800 \<le> int (604800000 div 1000)"
    by (simp add: refresh_claims0_def)
  have h4: "''another secret'' \<noteq> JWT_SECRET env0" by (simp add: JWT_SECRET_env0)
  have h7: "truthy (VNum 7)
     \<and> verify (VNum 7) (JWT_SECRET env0) 0 = Inl (JsonWebTokenError ''jwt must be a string'')"
    by (simp add: verify_def)
  have h5: "verify (VToken refresh0) (JWT_SECRET env0) 0 = Inr (PObject refresh_claims0)"
    by (rule verify_refresh0)
  have h5': "map_of refresh_claims0 ''id'' = Some (JStr ''u1'')" by (simp add: refresh_claims0_def)
  have h5'': "find_nobody (JStr ''u1'') = Inr None" by (simp add: find_nobody_def)
  have h6: "find_alice (JStr ''u1'') = Inr (Some alice)" by (simp add: find_alice_def)
  note T = refresh_route_statuses
  have c1: "statusCode (refresh_route env0 0 0 find_alice \<lparr>body_refreshToken = VUndefined\<rparr>
        (fresh :: (jwt, user) response)) = 400"
    using T [of VUndefined env0 0 0 find_alice] h1 by blast
  have c2: "statusCode (refresh_route env0 0 0 find_alice \<lparr>body_refreshToken = VToken Malformed\<rparr>
        (fresh :: (jwt, user) response)) = 401"
    using T [of "VToken Malformed" env0 0 0 find_alice] by blast
  have c3: "statusCode (refresh_route env0 604800000 604800000 find_alice
        \<lparr>body_refreshToken = VToken refresh0\<rparr> (fresh :: (jwt, user) response)) = 401"
    using T [of "VToken refresh0" env0 604800000 604800000 find_alice] h3
    unfolding refresh0_def by blast
  have c4: "statusCode (refresh_route env0 0 0 find_alice \<lparr>body_refreshToken = VToken foreign0\<rparr>
        (fresh :: (jwt, user) response)) = 401"
    using T [of "VToken foreign0" env0 0 0 find_alice] h4
    unfolding foreign0_def by blast
  have c7: "statusCode (refresh_route env0 0 0 find_alice \<lparr>body_refreshToken = VNum 7\<rparr>
        (fresh :: (jwt, user) response)) = 401"
    using T [of "VNum 7" env0 0 0 find_alice] h7 by blast
  have c5: "statusCode (refresh_route env0 0 0 find_nobody \<lparr>body_refreshToken = VToken refresh0\<rparr>
        (fresh :: (jwt, user) response)) = 401"
    using T [of "VToken refresh0" env0 0 0 find_nobody] h5 h5' h5'' by blast
  have c6: "\<exists>newToken. generateToken env0 5000 (user_id alice) (user_email alice) = Inr newToken
        \<and> refresh_route env0 0 5000 find_alice \<lparr>body_refreshToken = VToken refresh0\<rparr> fresh
            = \<lparr>statusCode = 200, cookies = [], sent = Json (NewToken newToken) :: (jwt, user) reply\<rparr>"
    using T [of "VToken refresh0" env0 0 5000 find_alice] h5 h5' h6 by blast
  show ?thesis using h1 h3 h4 h5 h5' h5'' h6 h7 c1 c2 c3 c4 c5 c6 c7 by blast
qed


subsection \<open>Token kinds are interchangeable at the refresh endpoint\<close>

text \<open>
  C5. For every id and email, the access token that \<open>generateToken\<close> mints, sent to
  POST /auth/refresh as \<open>refreshToken\<close> at a clock before its one-hour expiry, is accepted
  when the store has a user for that id: the answer is status 200 with a newly minted
  access token. Both kinds of token are signed with the same secret, and the handler asks
  of the verified payload only that it is an object with an \<open>id\<close>.
\<close>

theorem access_token_accepted_as_refresh_token:
  assumes "now1 div 1000 < now div 1000 + 3600"
    and "findById (JStr id') = Inr (Some u)"
  shows "\<exists>tok newToken.
           generateToken env now id' email = Inr tok
           \<and> generateToken env now2 (user_id u) (user_email u) = Inr newToken
           \<and> refresh_route env now1 now2 findById \<lparr>body_refreshToken = VToken tok\<rparr> fresh
               = \<lparr>statusCode = 200, cookies = [], sent = Json (NewToken newToken)\<rparr>"
proof -
  let ?pl = "[(''id'', JStr id'), (''email'', JStr email),
              (''iat'', JNum (int (now div 1000))),
              (''exp'', JNum (int (now div 1000) + 3600))]"
  let ?tok = "Compact (HS256 (JWT_SECRET env)) (PObject ?pl)"
  have v: "verify (body_refreshToken \<lparr>body_refreshToken = VToken ?tok\<rparr>) (JWT_SECRET env) now1
             = Inr (PObject ?pl)"
    using assms(1) by (simp add: verify_signed JWT_SECRET_nonempty check_claims_access)
  have i: "map_of ?pl ''id'' = Some (JStr id')" by simp
  show ?thesis
    using assms(2)
    by (simp add: generateToken_eq refresh_route_verified [OF v i] res_json_def fresh_def)
qed

theorem access_token_accepted_as_refresh_token_witness:
  "(1000::nat) div 1000 < 0 div 1000 + 3600
   \<and> find_alice (JStr ''u1'') = Inr (Some alice)
   \<and> (\<exists>tok newToken.
           generateToken env0 0 ''u1'' ''a@x.com'' = Inr tok
           \<and> generateToken env0 2000 (user_id alice) (user_email alice) = Inr newToken
           \<and> refresh_route env0 1000 2000 find_alice \<lparr>body_refreshToken = VToken tok\<rparr> fresh
               = \<lparr>statusCode = 200, cookies = [], sent = Json (NewToken newToken) :: (jwt, user) reply\<rparr>)"
proof -
  have a: "(1000::nat) div 1000 < 0 div 1000 + 3600" by simp
  have b: "find_alice (JStr ''u1'') = Inr (Some alice)" by (simp add: find_alice_def)
  from access_token_accepted_as_refresh_token
         [where ?now1.0 = 1000 and now = 0 and findById = find_alice and id' = "''u1''"
            and u = alice and env = env0 and email = "''a@x.com''" and ?now2.0 = 2000] a b
  show ?thesis by blast
qed

subsection \<open>\<open>verifyRefreshToken\<close> is total\<close>

text \<open>
  C6. For every argument, and so for every string, \<open>verifyRefreshToken\<close> returns and
  throws nothing: when \<open>verify\<close> fails, for a bad signature as for an expired token, it
  returns \<open>null\<close>, and when \<open>verify\<close> succeeds it returns the decoded payload.
\<close>

theorem verifyRefreshToken_never_throws:
  "(\<exists>r. verifyRefreshToken env now t = Inr r)
   \<and> (\<forall>e. verify t (JWT_SECRET env) now = Inl e \<longrightarrow> verifyRefreshToken env now t = Inr None)
   \<and> (\<forall>p. verify t (JWT_SECRET env) now = Inr p \<longrightarrow> verifyRefreshToken env now t = Inr (Some p))
   \<and> (\<forall>k p. k \<noteq> JWT_SECRET env \<longrightarrow>
         verifyRefreshToken env now (VToken (Compact (HS256 k) p)) = Inr None)
   \<and> (\<forall>sg pl e. map_of pl ''exp'' = Some (JNum e) \<and> e \<le> int (now div 1000) \<longrightarrow>
         verifyRefreshToken env now (VToken (Compact sg (PObject pl))) = Inr None)"
proof (intro conjI allI impI)
  show "\<exists>r. verifyRefreshToken env now t = Inr r"
    by (simp add: verifyRefreshToken_def split: sum.split)
next
  fix e assume "verify t (JWT_SECRET env) now = Inl e"
  then show "verifyRefreshToken env now t = Inr None"
    by (simp add: verifyRefreshToken_def)
next
  fix p assume "verify t (JWT_SECRET env) now = Inr p"
  then show "verifyRefreshToken env now t = Inr (Some p)"
    by (simp add: verifyRefreshToken_def)
next
  fix k p assume "k \<noteq> JWT_SECRET env"
  then show "verifyRefreshToken env now (VToken (Compact (HS256 k) p)) = Inr None"
    using verify_other_secret [of k "JWT_SECRET env" p now]
    by (auto simp: verifyRefreshToken_def JWT_SECRET_nonempty)
next
  fix sg pl e assume "map_of pl ''exp'' = Some (JNum e) \<and> e \<le> int (now div 1000)"
  then show "verifyRefreshToken env now (VToken (Compact sg (PObject pl))) = Inr None"
    using verify_expired [of pl e now "JWT_SECRET env" sg]
    by (auto simp: verifyRefreshToken_def JWT_SECRET_nonempty)
qed

theorem verifyRefreshToken_never_throws_witness:
  "''another secret'' \<noteq> JWT_SECRET env0
   \<and> verifyRefreshToken env0 0 (VToken foreign0) = Inr None
   \<and> map_of refresh_claims0 ''exp'' = Some (JNum 604800) \<and> 604800 \<le> int (604800000 div 1000)
   \<and> verifyRefreshToken env0 604800000 (VToken refresh0) = Inr None
   \<and> verify (VToken refresh0) (JWT_SECRET env0) 0 = Inr (PObject refresh_claims0)
   \<and> verifyRefreshToken env0 0 (VToken refresh0) = Inr (Some (PObject refresh_claims0))
   \<and> verify VEmptyString (JWT_SECRET env0) 0 = Inl (JsonWebTokenError ''jwt must be provided'')
   \<and> verifyRefreshToken env0 0 VEmptyString = Inr None"
proof -
  have h1: "''another secret'' \<noteq> JWT_SECRET env0" by (simp add: JWT_SECRET_env0)
  have h2: "map_of refresh_claims0 ''exp'' = Some (JNum 604800) \<and> 604800 \<le> int (604800000 div 1000)"
    by (simp add: refresh_claims0_def)
  have h3: "verify (VToken refresh0) (JWT_SECRET env0) 0 = Inr (PObject refresh_claims0)"
    by (rule verify_refresh0)
  have h4: "verify VEmptyString (JWT_SECRET env0) 0 = Inl (JsonWebTokenError ''jwt must be provided'')"
    by (simp add: verify_def)
  have c1: "verifyRefreshToken env0 0 (VToken foreign0) = Inr None"
    using verifyRefreshToken_never_throws [of env0 0] h1 unfolding foreign0_def by blast
  have c2: "verifyRefreshToken env0 604800000 (VToken refresh0) = Inr None"
    using verifyRefreshToken_never_throws [of env0 604800000] h2 unfolding refresh0_def by blast
  have c3: "verifyRefreshToken env0 0 (VToken refresh0) = Inr (Some (PObject refresh_claims0))"
    using verifyRefreshToken_never_throws [of env0 0 "VToken refresh0"] h3 by blast
  have c4: "verifyRefreshToken env0 0 VEmptyString = Inr None"
    using verifyRefreshToken_never_throws [of env0 0 VEmptyString] h4 by blast
  show ?thesis using h1 h2 h3 h4 c1 c2 c3 c4 by blast
qed

subsection \<open>Successful login\<close>

text \<open>
  C7. After a successful login the response carries exactly two cookies, \<open>token\<close> with
  max-age 86400000 ms (one day) and \<open>refreshToken\<close> with max-age 604800000 ms (seven
  days), in this order, and a body with the user and both tokens, with status 200. The
  max-age of the \<open>token\<close> cookie exceeds the lifetime embedded in an access token, which is
  \<open>exp - iat = 3600\<close> seconds.
\<close>

theorem loginCtrl_authenticated:
  assumes "loginUser body = Inr (Authenticated a)"
  shows "statusCode (loginCtrl loginUser body fresh) = 200
    \<and> cookies (loginCtrl loginUser body fresh)
        = [\<lparr>cookie_name = ''token'', cookie_value = auth_token a, httpOnly = True,
            secure = False, sameSite = ''none'', maxAge = 86400000\<rparr>,
           \<lparr>cookie_name = ''refreshToken'', cookie_value = auth_refreshToken a, httpOnly = True,
            secure = False, sameSite = ''none'', maxAge = 604800000\<rparr>]
    \<and> sent (loginCtrl loginUser body fresh)
        = Json (Session (auth_user a) (auth_token a) (auth_refreshToken a))
    \<and> (\<exists>pl iat ex. generateToken env now id' email
                        = Inr (Compact (HS256 (JWT_SECRET env)) (PObject pl))
          \<and> map_of pl ''iat'' = Some (JNum iat) \<and> map_of pl ''exp'' = Some (JNum ex)
          \<and> ex - iat = 3600
          \<and> (\<forall>c \<in> set (cookies (loginCtrl loginUser body fresh)).
                cookie_name c = ''token'' \<longrightarrow> 1000 * (ex - iat) < int (maxAge c)))"
  using assms
  by (simp add: loginCtrl_def res_json_def res_cookie_def fresh_def token_cookie_def
        refreshToken_cookie_def generateToken_eq)

theorem loginCtrl_authenticated_witness:
  "login_ok () = Inr (Authenticated session0)
   \<and> map cookie_name (cookies (loginCtrl login_ok () fresh)) = [''token'', ''refreshToken'']
   \<and> map maxAge (cookies (loginCtrl login_ok () fresh)) = [86400000, 604800000]
   \<and> sent (loginCtrl login_ok () fresh)
        = Json (Session alice ''aaa.bbb.ccc'' ''ddd.eee.fff'')
   \<and> token_cookie ''aaa.bbb.ccc'' \<in> set (cookies (loginCtrl login_ok () fresh))
   \<and> cookie_name (token_cookie ''aaa.bbb.ccc'') = ''token''
   \<and> (1000 * 3600 :: int) < int (maxAge (token_cookie ''aaa.bbb.ccc''))"
proof -
  have h: "login_ok () = Inr (Authenticated session0)" by (simp add: login_ok_def)
  note T = loginCtrl_authenticated
         [where loginUser = login_ok and body = "()" and a = session0 and env = env0
            and now = 0 and id' = "''u1''" and email = "''a@x.com''", OF h]
  from T have c: "cookies (loginCtrl login_ok () fresh)
        = [\<lparr>cookie_name = ''token'', cookie_value = auth_token session0, httpOnly = True,
            secure = False, sameSite = ''none'', maxAge = 86400000\<rparr>,
           \<lparr>cookie_name = ''refreshToken'', cookie_value = auth_refreshToken session0, httpOnly = True,
            secure = False, sameSite = ''none'', maxAge = 604800000\<rparr>]"
    and s: "sent (loginCtrl login_ok () fresh)
        = Json (Session (auth_user session0) (auth_token session0) (auth_refreshToken session0))"
    by blast+
  from c have m: "token_cookie ''aaa.bbb.ccc'' \<in> set (cookies (loginCtrl login_ok () fresh))"
    and n: "cookie_name (token_cookie ''aaa.bbb.ccc'') = ''token''"
    by (simp_all add: token_cookie_def session0_def)
  from T obtain iat ex :: int where
    "ex - iat = 3600"
    "\<forall>c \<in> set (cookies (loginCtrl login_ok () fresh)).
        cookie_name c = ''token'' \<longrightarrow> 1000 * (ex - iat) < int (maxAge c)"
    by blast
  with m n have "(1000 * 3600 :: int) < int (maxAge (token_cookie ''aaa.bbb.ccc''))"
    by fastforce
  then show ?thesis using h c s m n by (simp add: session0_def)
qed

subsection \<open>Internal failures\<close>

text \<open>
  C8 (as amended). When the service call of the register or of the login handler throws,
  the response has status 500 and its body carries the message of the error unchanged.
  When the store throws in the refresh handler, the response has status 500 and its body
  carries the fixed message "Error interno del servidor", whatever the error says.
\<close>

theorem internal_failure_responses:
  "(\<forall>e. registerNewUser body = Inl e \<longrightarrow>
      registerCtrl registerNewUser body fresh
        = \<lparr>statusCode = 500, cookies = [], sent = Json (Message (message e))\<rparr>)
   \<and> (\<forall>e. loginUser body' = Inl e \<longrightarrow>
      loginCtrl loginUser body' fresh
        = \<lparr>statusCode = 500, cookies = [], sent = Json (Message (message e))\<rparr>)
   \<and> (\<forall>e pl i. verify t (JWT_SECRET env) now = Inr (PObject pl) \<and> map_of pl ''id'' = Some i
          \<and> findById i = Inl e \<longrightarrow>
      refresh_route env now now' findById \<lparr>body_refreshToken = t\<rparr> fresh
        = \<lparr>statusCode = 500, cookies = [], sent = Json (Message ''Error interno del servidor'')\<rparr>)"
proof (intro conjI allI impI)
  fix e assume "registerNewUser body = Inl e"
  then show "registerCtrl registerNewUser body fresh
        = \<lparr>statusCode = 500, cookies = [], sent = Json (Message (message e))\<rparr>"
    by (simp add: registerCtrl_def res_json_def res_status_def fresh_def)
next
  fix e assume "loginUser body' = Inl e"
  then show "loginCtrl loginUser body' fresh
        = \<lparr>statusCode = 500, cookies = [], sent = Json (Message (message e))\<rparr>"
    by (simp add: loginCtrl_def res_json_def res_status_def fresh_def)
next
  fix e pl i
  assume h: "verify t (JWT_SECRET env) now = Inr (PObject pl) \<and> map_of pl ''id'' = Some i
          \<and> findById i = Inl e"
  then have v: "verify (body_refreshToken \<lparr>body_refreshToken = t\<rparr>) (JWT_SECRET env) now = Inr (PObject pl)"
    and i: "map_of pl ''id'' = Some i" by simp_all
  show "refresh_route env now now' findById \<lparr>body_refreshToken = t\<rparr> fresh
        = \<lparr>statusCode = 500, cookies = [], sent = Json (Message ''Error interno del servidor'')\<rparr>"
    using h by (simp add: refresh_route_verified [OF v i] res_json_def res_status_def fresh_def)
qed

text \<open>
  The claim as first stated fails for the refresh handler: the store throws an error that
  says "connection lost", and the body says "Error interno del servidor".
\<close>

theorem refresh_internal_failure_counterexample:
  "verify (VToken refresh0) (JWT_SECRET env0) 0 = Inr (PObject refresh_claims0)
   \<and> map_of refresh_claims0 ''id'' = Some (JStr ''u1'')
   \<and> find_fails (JStr ''u1'') = Inl (Error ''connection lost'')
   \<and> message (Error ''connection lost'') = ''connection lost''
   \<and> refresh_route env0 0 0 find_fails \<lparr>body_refreshToken = VToken refresh0\<rparr>
        (fresh :: (jwt, user) response)
       = \<lparr>statusCode = 500, cookies = [], sent = Json (Message ''Error interno del servidor'')\<rparr>
   \<and> sent (refresh_route env0 0 0 find_fails \<lparr>body_refreshToken = VToken refresh0\<rparr>
        (fresh :: (jwt, user) response))
       \<noteq> Json (Message ''connection lost'')"
proof -
  have v: "verify (body_refreshToken \<lparr>body_refreshToken = VToken refresh0\<rparr>) (JWT_SECRET env0) 0
             = Inr (PObject refresh_claims0)"
    by (simp add: verify_refresh0)
  have i: "map_of refresh_claims0 ''id'' = Some (JStr ''u1'')" by (simp add: refresh_claims0_def)
  show ?thesis
    by (simp add: refresh_route_verified [OF v i] verify_refresh0 i find_fails_def
          res_json_def res_status_def fresh_def)
qed

theorem internal_failure_responses_witness:
  "register_fails () = Inl (Error ''connection lost'')
   \<and> registerCtrl register_fails () (fresh :: (string, user) response)
        = \<lparr>statusCode = 500, cookies = [], sent = Json (Message ''connection lost'')\<rparr>
   \<and> login_fails () = Inl (Error ''connection lost'')
   \<and> loginCtrl login_fails () fresh
        = \<lparr>statusCode = 500, cookies = [], sent = Json (Message ''connection lost'')\<rparr>
   \<and> find_fails (JStr ''u1'') = Inl (Error ''connection lost'')
   \<and> refresh_route env0 0 0 find_fails \<lparr>body_refreshToken = VToken refresh0\<rparr>
        (fresh :: (jwt, user) response)
       = \<lparr>statusCode = 500, cookies = [], sent = Json (Message ''Error interno del servidor'')\<rparr>"
proof -
  have h1: "register_fails () = Inl (Error ''connection lost'')" by (simp add: register_fails_def)
  have h2: "login_fails () = Inl (Error ''connection lost'')" by (simp add: login_fails_def)
  have h3: "verify (VToken refresh0) (JWT_SECRET env0) 0 = Inr (PObject refresh_claims0)
     \<and> map_of refresh_claims0 ''id'' = Some (JStr ''u1'')
     \<and> find_fails (JStr ''u1'') = Inl (Error ''connection lost'')"
    by (simp add: verify_refresh0 refresh_claims0_def find_fails_def)
  note T = internal_failure_responses
     [where registerNewUser = register_fails and body = "()" and loginUser = login_fails
        and body' = "()" and t = "VToken refresh0" and env = env0 and now = 0 and now' = 0
        and findById = find_fails]
  have c1: "registerCtrl register_fails () (fresh :: (string, user) response)
        = \<lparr>statusCode = 500, cookies = [], sent = Json (Message (message (Error ''connection lost'')))\<rparr>"
    using T h1 by blast
  have c2: "loginCtrl login_fails () fresh
        = \<lparr>statusCode = 500, cookies = [], sent = Json (Message (message (Error ''connection lost'')))\<rparr>"
    using T h2 by blast
  have c3: "refresh_route env0 0 0 find_fails \<lparr>body_refreshToken = VToken refresh0\<rparr>
        (fresh :: (jwt, user) response)
       = \<lparr>statusCode = 500, cookies = [], sent = Json (Message ''Error interno del servidor'')\<rparr>"
    using T h3 by blast
  show ?thesis using h1 h2 h3 c1 c2 c3 by simp
qed

subsection \<open>GET /auth/google with an empty redirect address\<close>

text \<open>
  The claim as first stated fails when \<open>GOOGLE_OAUTH_REDIRECT_URL\<close> is defined as the empty
  string: the variable is set, and the handler answers 500 instead of redirecting.
\<close>

theorem googleAuthCtrl_empty_redirect_counterexample:
  "env_GOOGLE_OAUTH_REDIRECT_URL env_empty_redirect = Some []
   \<and> env_GOOGLE_OAUTH_REDIRECT_URL env_empty_redirect \<noteq> None
   \<and> statusCode (googleAuthCtrl env_empty_redirect (fresh :: (string, user) response)) = 500
   \<and> statusCode (googleAuthCtrl env_empty_redirect (fresh :: (string, user) response)) \<noteq> 302
   \<and> sent (googleAuthCtrl env_empty_redirect (fresh :: (string, user) response))
       = Json (Message (''Error interno de configuraci'' @ [CHR 0xC3, CHR 0xB3] @ ''n''))"
  by (simp add: env_empty_redirect_def googleAuthCtrl_def falsy_def res_json_def res_status_def
        fresh_def)

theorem googleAuthCtrl_outcomes_witness:
  "env_GOOGLE_OAUTH_REDIRECT_URL env0 = None
   \<and> googleAuthCtrl env0 (fresh :: (string, user) response) =
        \<lparr>statusCode = 500, cookies = [],
         sent = Json (Message (''Error interno de configuraci'' @ [CHR 0xC3, CHR 0xB3] @ ''n''))\<rparr>
   \<and> env_GOOGLE_OAUTH_REDIRECT_URL env_google = Some ''http://localhost:9000/cb''
   \<and> ''http://localhost:9000/cb'' \<noteq> []
   \<and> googleAuthCtrl env_google (fresh :: (string, user) response) =
        \<lparr>statusCode = 302, cookies = [],
         sent = Redirect ''https://accounts.google.com/o/oauth2/v2/auth?redirect_uri=http%3A%2F%2Flocalhost%3A9000%2Fcb&client_id=client-1&access_type=offline&response_type=code&prompt=consent&scope=https%3A%2F%2Fwww.googleapis.com%2Fauth%2Fuserinfo.profile+https%3A%2F%2Fwww.googleapis.com%2Fauth%2Fuserinfo.email+openid''\<rparr>"
proof -
  have h1: "env_GOOGLE_OAUTH_REDIRECT_URL env0 = None" by (simp add: env0_def)
  have h2: "env_GOOGLE_OAUTH_REDIRECT_URL env_google = Some ''http://localhost:9000/cb''
     \<and> ''http://localhost:9000/cb'' \<noteq> []"
    by (simp add: env_google_def)
  have e1: "urlencode ''http://localhost:9000/cb'' = ''http%3A%2F%2Flocalhost%3A9000%2Fcb''"
    by (simp add: urlencode_def urlencode_byte_def unreserved_def hex_def)
  have e2: "urlencode (toString (env_GOOGLE_CLIENT_ID env_google)) = ''client-1''"
    by (simp add: env_google_def toString_def urlencode_def urlencode_byte_def unreserved_def)
  have c1: "googleAuthCtrl env0 (fresh :: (string, user) response) =
        \<lparr>statusCode = 500, cookies = [],
         sent = Json (Message (''Error interno de configuraci'' @ [CHR 0xC3, CHR 0xB3] @ ''n''))\<rparr>"
    using googleAuthCtrl_outcomes [of env0] h1 by blast
  have "googleAuthCtrl env_google (fresh :: (string, user) response) =
        \<lparr>statusCode = 302, cookies = [],
         sent = Redirect (''https://accounts.google.com/o/oauth2/v2/auth?redirect_uri=''
           @ urlencode ''http://localhost:9000/cb'' @ ''&client_id=''
           @ urlencode (toString (env_GOOGLE_CLIENT_ID env_google))
           @ ''&access_type=offline&response_type=code&prompt=consent&scope=https%3A%2F%2Fwww.googleapis.com%2Fauth%2Fuserinfo.profile+https%3A%2F%2Fwww.googleapis.com%2Fauth%2Fuserinfo.email+openid'')\<rparr>"
    using googleAuthCtrl_outcomes [of env_google] h2 by blast
  then have c2: "googleAuthCtrl env_google (fresh :: (string, user) response) =
        \<lparr>statusCode = 302, cookies = [],
         sent = Redirect ''https://accounts.google.com/o/oauth2/v2/auth?redirect_uri=http%3A%2F%2Flocalhost%3A9000%2Fcb&client_id=client-1&access_type=offline&response_type=code&prompt=consent&scope=https%3A%2F%2Fwww.googleapis.com%2Fauth%2Fuserinfo.profile+https%3A%2F%2Fwww.googleapis.com%2Fauth%2Fuserinfo.email+openid''\<rparr>"
    by (simp add: e1 e2)
  show ?thesis using h1 h2 c1 c2 by simp
qed

subsection \<open>GET /auth/google/callback\<close>

text \<open>
  C10. When the callback has a non-empty \<open>code\<close> and the exchange yields a session, the
  handler sets the two session cookies and then redirects (302) to
  \<open>http://localhost:4200/\<close> with the access token and the user's email as the query
  parameters \<open>token\<close> and \<open>email\<close> of the address.
\<close>

theorem googleAuthCallback_success:
  assumes "c \<noteq> []" and "googleAuth c = Inr (Some authData)"
  shows "googleAuthCallback googleAuth (Some c) fresh =
     \<lparr>statusCode = 302,
      cookies =
        [\<lparr>cookie_name = ''token'', cookie_value = auth_token authData, httpOnly = True,
          secure = False, sameSite = ''none'', maxAge = 86400000\<rparr>,
         \<lparr>cookie_name = ''refreshToken'', cookie_value = auth_refreshToken authData,
          httpOnly = True, secure = False, sameSite = ''none'', maxAge = 604800000\<rparr>],
      sent = Redirect (''http://localhost:4200/?token='' @ auth_token authData
                         @ ''&email='' @ user_email (auth_user authData))\<rparr>"
  using assms
  by (simp add: googleAuthCallback_def falsy_def toString_def res_redirect_def res_cookie_def
        token_cookie_def refreshToken_cookie_def fresh_def)

theorem googleAuthCallback_success_witness:
  "''4/0Ab'' \<noteq> [] \<and> google_ok ''4/0Ab'' = Inr (Some session0)
   \<and> map cookie_name (cookies (googleAuthCallback google_ok (Some ''4/0Ab'') fresh))
        = [''token'', ''refreshToken'']
   \<and> statusCode (googleAuthCallback google_ok (Some ''4/0Ab'') fresh) = 302
   \<and> sent (googleAuthCallback google_ok (Some ''4/0Ab'') fresh)
        = Redirect ''http://localhost:4200/?token=aaa.bbb.ccc&email=a@x.com''"
proof -
  have h2: "''4/0Ab'' \<noteq> []" by simp
  have h3: "google_ok ''4/0Ab'' = Inr (Some session0)" by (simp add: google_ok_def)
  from googleAuthCallback_success
         [where c = "''4/0Ab''" and googleAuth = google_ok and authData = session0] h2 h3
  show ?thesis by (simp add: session0_def alice_def)
qed

end
